theory Spec2Isabelle
  imports Complex_Main "HOL-Library.AList"
begin

section \<open>Python values used by the program\<close>

subsection \<open>Strings\<close>

text \<open>
  A Python \<^verbatim>\<open>str\<close> is a sequence of Unicode code points, so it is modelled as a list of
  natural numbers. \<open>str\<close> turns an ASCII literal into such a list.
\<close>

type_synonym pystr = "nat list"

definition str :: "string \<Rightarrow> pystr" where
  "str cs = map of_char cs"

text \<open>
  \<^verbatim>\<open>str.strip()\<close> without argument removes leading and trailing whitespace, where
  whitespace is what \<^verbatim>\<open>str.isspace\<close> accepts: the code points below.
\<close>

definition isspace :: "nat \<Rightarrow> bool" where
  "isspace c \<longleftrightarrow>
     (9 \<le> c \<and> c \<le> 13) \<or> (28 \<le> c \<and> c \<le> 32) \<or> c = 133 \<or> c = 160 \<or>
     c = 5760 \<or> (8192 \<le> c \<and> c \<le> 8202) \<or> c = 8232 \<or> c = 8233 \<or>
     c = 8239 \<or> c = 8287 \<or> c = 12288"

definition strip :: "pystr \<Rightarrow> pystr" where
  "strip s = rev (dropWhile isspace (rev (dropWhile isspace s)))"

definition startswith :: "pystr \<Rightarrow> pystr \<Rightarrow> bool" where
  "startswith s p \<longleftrightarrow> take (length p) s = p"

definition endswith :: "pystr \<Rightarrow> pystr \<Rightarrow> bool" where
  "endswith s p \<longleftrightarrow> length p \<le> length s \<and> drop (length s - length p) s = p"

text \<open>A string is \<open>stripped\<close> when \<open>strip\<close> has nothing to remove from it.\<close>

definition stripped :: "pystr \<Rightarrow> bool" where
  "stripped s \<longleftrightarrow> s = [] \<or> (\<not> isspace (hd s) \<and> \<not> isspace (last s))"

subsection \<open>Exceptions\<close>

datatype py_error =
    AttributeError | KeyError | IndexError | TypeError
  | CalledProcessError | OSError

subsection \<open>Decoded JSON\<close>

text \<open>
  The value \<^verbatim>\<open>response.json()\<close> returns: \<^verbatim>\<open>None\<close>, a bool, a number, a string, a
  list or a dict with string keys. A dict is kept as the list of its items.
\<close>

datatype json =
    JNull
  | JBool bool
  | JInt int
  | JFloat real
  | JStr pystr
  | JArr "json list"
  | JObj "(pystr \<times> json) list"

text \<open>Python's truth value of a decoded JSON value, as \<^verbatim>\<open>if x\<close> and \<^verbatim>\<open>x and y\<close> test it.\<close>

fun truthy :: "json \<Rightarrow> bool" where
  "truthy JNull = False"
| "truthy (JBool b) = b"
| "truthy (JInt i) = (i \<noteq> 0)"
| "truthy (JFloat r) = (r \<noteq> 0)"
| "truthy (JStr s) = (s \<noteq> [])"
| "truthy (JArr xs) = (xs \<noteq> [])"
| "truthy (JObj kvs) = (kvs \<noteq> [])"

text \<open>\<^verbatim>\<open>x.get(key)\<close>: only a dict has the method; a missing key gives \<^verbatim>\<open>None\<close>.\<close>

fun py_get :: "json \<Rightarrow> pystr \<Rightarrow> py_error + json" where
  "py_get (JObj kvs) k = Inr (case map_of kvs k of None \<Rightarrow> JNull | Some v \<Rightarrow> v)"
| "py_get _ k = Inl AttributeError"

text \<open>
  \<^verbatim>\<open>x[key]\<close> and \<^verbatim>\<open>x[i]\<close> for a string key and a non-negative index. A dict decoded from
  JSON has string keys only, so an integer index into it is a \<^verbatim>\<open>KeyError\<close>.
\<close>

datatype subscript = Key pystr | Index nat

fun getitem :: "json \<Rightarrow> subscript \<Rightarrow> py_error + json" where
  "getitem (JObj kvs) (Key k) = (case map_of kvs k of None \<Rightarrow> Inl KeyError | Some v \<Rightarrow> Inr v)"
| "getitem (JObj kvs) (Index i) = Inl KeyError"
| "getitem (JArr xs) (Index i) = (if i < length xs then Inr (xs ! i) else Inl IndexError)"
| "getitem (JArr xs) (Key k) = Inl TypeError"
| "getitem (JStr s) (Index i) = (if i < length s then Inr (JStr [s ! i]) else Inl IndexError)"
| "getitem (JStr s) (Key k) = Inl TypeError"
| "getitem _ _ = Inl TypeError"

text \<open>A chain of subscripts \<^verbatim>\<open>x[a][b]...\<close> stops at the first one that raises.\<close>

fun getitems :: "json \<Rightarrow> subscript list \<Rightarrow> py_error + json" where
  "getitems x [] = Inr x"
| "getitems x (s # ss) = (case getitem x s of Inl e \<Rightarrow> Inl e | Inr v \<Rightarrow> getitems v ss)"

text \<open>\<^verbatim>\<open>D[key]\<close> on a dict literal of the program, kept as the list of its items.\<close>

definition dict_getitem :: "('k \<times> 'v) list \<Rightarrow> 'k \<Rightarrow> py_error + 'v" where
  "dict_getitem d k = (case map_of d k of None \<Rightarrow> Inl KeyError | Some v \<Rightarrow> Inr v)"

section \<open>llmprovider.py\<close>

subsection \<open>The HTTP session\<close>

text \<open>
  \<^verbatim>\<open>session.post\<close> either raises or yields a response with a status, a body that
  \<^verbatim>\<open>response.json()\<close> decodes (\<open>None\<close>: decoding raises) and a text that
  \<^verbatim>\<open>response.text()\<close> reads (\<open>None\<close>: reading raises). A session is the function from
  the request to that outcome. Log lines are not modelled.
\<close>

record request =
  url :: pystr
  headers :: "(pystr \<times> pystr) list"
  json_payload :: json

datatype http_outcome =
    Raises
  | Response int "json option" "pystr option"

type_synonym session = "request \<Rightarrow> http_outcome"

definition prompt_head :: pystr where
  "prompt_head = str (''Please refactor the following Python code to be more readable, efficient, and adhere to PEP 8 standards.\<newline>''
     @ ''Add docstrings to all functions and classes. Add comments explaining complex logic.\<newline>''
     @ ''Ensure the refactored code maintains the exact original functionality.\<newline>''
     @ ''Only return the raw refactored Python code, without any markdown formatting or explanations.\<newline>\<newline>''
     @ ''Original Code:\<newline>''
     @ ''```python\<newline>'')"

definition prompt_tail :: pystr where
  "prompt_tail = str (''\<newline>''
     @ ''```\<newline>\<newline>''
     @ ''Refactored Code:'')"

text \<open>\<^verbatim>\<open>REFACTOR_PROMPT.format(file_content=file_content)\<close>.\<close>

definition REFACTOR_PROMPT :: "pystr \<Rightarrow> pystr" where
  "REFACTOR_PROMPT file_content = prompt_head @ file_content @ prompt_tail"

text \<open>
  \<^verbatim>\<open>_make_request\<close>: the decoded body on status 200, \<^verbatim>\<open>None\<close> (here \<open>JNull\<close>) on any
  other status and on any exception.
\<close>

definition make_request :: "session \<Rightarrow> pystr \<Rightarrow> (pystr \<times> pystr) list \<Rightarrow> json \<Rightarrow> json" where
  "make_request session u h p =
     (case session \<lparr>url = u, headers = h, json_payload = p\<rparr> of
        Raises \<Rightarrow> JNull
      | Response status body text \<Rightarrow>
          if status = 200 then (case body of None \<Rightarrow> JNull | Some j \<Rightarrow> j)
          else JNull)"

subsection \<open>Response cleanup\<close>

definition fence_python :: pystr where
  "fence_python = str ''```python''"

definition fence :: pystr where
  "fence = str ''```''"

definition clean_response :: "pystr \<Rightarrow> pystr" where
  "clean_response refactored_code =
     (let r1 = (if startswith (strip refactored_code) fence_python
                then drop 9 (strip refactored_code) else refactored_code);
          r2 = (if endswith (strip r1) fence
                then take (length (strip r1) - 3) (strip r1) else r1)
      in strip r2)"

text \<open>
  The cleanup applied to a decoded JSON value: its first step is \<^verbatim>\<open>.strip()\<close>, which
  only a string has.
\<close>

fun clean_value :: "json \<Rightarrow> py_error + pystr" where
  "clean_value (JStr s) = Inr (clean_response s)"
| "clean_value _ = Inl AttributeError"

definition extract_clean :: "json \<Rightarrow> subscript list \<Rightarrow> py_error + pystr" where
  "extract_clean result path =
     (case getitems result path of Inl e \<Rightarrow> Inl e | Inr v \<Rightarrow> clean_value v)"

subsection \<open>Provider adapters\<close>

text \<open>
  The part the four adapters share after the request:
  \<^verbatim>\<open>if result and result.get(field): return _clean_response(result[field]...)\<close>,
  then \<^verbatim>\<open>return file_content\<close>.
\<close>

definition adapter_result ::
  "json \<Rightarrow> pystr \<Rightarrow> subscript list \<Rightarrow> pystr \<Rightarrow> py_error + pystr" where
  "adapter_result result field path file_content =
     (if truthy result then
        (case py_get result field of
           Inl e \<Rightarrow> Inl e
         | Inr v \<Rightarrow> if truthy v then extract_clean result path else Inr file_content)
      else Inr file_content)"

definition chat_payload :: "pystr \<Rightarrow> pystr \<Rightarrow> (pystr \<times> json) list" where
  "chat_payload model file_content =
     [(str ''model'', JStr model),
      (str ''messages'', JArr [JObj [(str ''role'', JStr (str ''user'')),
                                    (str ''content'', JStr (REFACTOR_PROMPT file_content))]])]"

definition gemini_payload :: "pystr \<Rightarrow> json" where
  "gemini_payload prompt =
     JObj [(str ''contents'', JArr [JObj [(str ''parts'', JArr [JObj [(str ''text'', JStr prompt)]])]])]"

definition gemini_path :: "subscript list" where
  "gemini_path = [Key (str ''candidates''), Index 0, Key (str ''content''),
                  Key (str ''parts''), Index 0, Key (str ''text'')]"

definition chat_path :: "subscript list" where
  "chat_path = [Key (str ''choices''), Index 0, Key (str ''message''), Key (str ''content'')]"

definition anthropic_path :: "subscript list" where
  "anthropic_path = [Key (str ''content''), Index 0, Key (str ''text'')]"

definition refactor_with_gemini :: "session \<Rightarrow> pystr \<Rightarrow> pystr \<Rightarrow> py_error + pystr" where
  "refactor_with_gemini session file_content api_key =
     (let api_url = str ''https://generativelanguage.googleapis.com/v1beta/models/gemini-1.5-flash:generateContent?key='' @ api_key;
          hdrs = [(str ''Content-Type'', str ''application/json'')];
          payload = gemini_payload (REFACTOR_PROMPT file_content);
          result = make_request session api_url hdrs payload
      in adapter_result result (str ''candidates'') gemini_path file_content)"

definition refactor_with_openai :: "session \<Rightarrow> pystr \<Rightarrow> pystr \<Rightarrow> py_error + pystr" where
  "refactor_with_openai session file_content api_key =
     (let api_url = str ''https://api.openai.com/v1/chat/completions'';
          hdrs = [(str ''Authorization'', str ''Bearer '' @ api_key),
                  (str ''Content-Type'', str ''application/json'')];
          payload = JObj (chat_payload (str ''gpt-4o'') file_content);
          result = make_request session api_url hdrs payload
      in adapter_result result (str ''choices'') chat_path file_content)"

definition refactor_with_anthropic :: "session \<Rightarrow> pystr \<Rightarrow> pystr \<Rightarrow> py_error + pystr" where
  "refactor_with_anthropic session file_content api_key =
     (let api_url = str ''https://api.anthropic.com/v1/messages'';
          hdrs = [(str ''x-api-key'', api_key),
                  (str ''anthropic-version'', str ''2023-06-01''),
                  (str ''Content-Type'', str ''application/json'')];
          payload = JObj [(str ''model'', JStr (str ''claude-3-sonnet-20240229'')),
                          (str ''max_tokens'', JInt 4096),
                          (str ''messages'',
                             JArr [JObj [(str ''role'', JStr (str ''user'')),
                                         (str ''content'', JStr (REFACTOR_PROMPT file_content))]])];
          result = make_request session api_url hdrs payload
      in adapter_result result (str ''content'') anthropic_path file_content)"

definition refactor_with_deepseek :: "session \<Rightarrow> pystr \<Rightarrow> pystr \<Rightarrow> py_error + pystr" where
  "refactor_with_deepseek session file_content api_key =
     (let api_url = str ''https://api.deepseek.com/v1/chat/completions'';
          hdrs = [(str ''Authorization'', str ''Bearer '' @ api_key),
                  (str ''Content-Type'', str ''application/json'')];
          payload = JObj (chat_payload (str ''deepseek-coder'') file_content);
          result = make_request session api_url hdrs payload
      in adapter_result result (str ''choices'') chat_path file_content)"

subsection \<open>Provider dictionary\<close>

record provider =
  adapter_function :: "session \<Rightarrow> pystr \<Rightarrow> pystr \<Rightarrow> py_error + pystr"
  api_key_name :: pystr

definition MODEL_PROVIDERS :: "(pystr \<times> provider) list" where
  "MODEL_PROVIDERS =
     [(str ''gemini'', \<lparr>adapter_function = refactor_with_gemini, api_key_name = str ''GEMINI_API_KEY''\<rparr>),
      (str ''openai'', \<lparr>adapter_function = refactor_with_openai, api_key_name = str ''OPENAI_API_KEY''\<rparr>),
      (str ''claude'', \<lparr>adapter_function = refactor_with_anthropic, api_key_name = str ''ANTHROPIC_API_KEY''\<rparr>),
      (str ''deepseek'', \<lparr>adapter_function = refactor_with_deepseek, api_key_name = str ''DEEPSEEK_API_KEY''\<rparr>)]"

section \<open>app.py\<close>

subsection \<open>The agent and its environment\<close>

record agent =
  repo_url :: pystr
  github_token :: pystr
  gemini_api_key :: pystr

text \<open>
  A path is the list of its components below the clone directory:
  \<^verbatim>\<open>file_path\<close> and \<^verbatim>\<open>absolute_path = os.path.join(self.clone_path, file_path)\<close> name
  the same file. A directory, as \<^verbatim>\<open>os.walk\<close> lists it: its subdirectories and its file
  names.
\<close>

type_synonym path = "pystr list"

datatype dirtree = Dir "(pystr \<times> dirtree) list" "pystr list"

text \<open>The calls to the GitHub client made by \<^verbatim>\<open>create_pull_request\<close>, and how one ends.\<close>

datatype gh_call =
    GetRepo | GetBranch | GetGitRef | DeleteRef | CreateGitRef
  | GetContents path | UpdateFile path pystr | CreatePull

datatype gh_outcome = Ok | GithubException int | OtherException

text \<open>
  Everything outside the program that one run observes:
  whether the clone directory exists when \<^verbatim>\<open>clone_repository\<close> and \<^verbatim>\<open>cleanup\<close> look,
  whether removing the stale copy and \<^verbatim>\<open>git clone\<close> raise, the cloned tree, what
  \<^verbatim>\<open>open(...)\<close> and reading give for a path (\<open>None\<close>: it raises; otherwise the decoded
  text with newlines translated to \<^verbatim>\<open>\n\<close>), the session that the given attempt for the
  given file opens, and the outcome of each GitHub call.
\<close>

record world =
  stale_copy :: bool
  stale_rmtree :: "py_error option"
  git_clone :: "py_error option"
  tree :: dirtree
  files :: "path \<Rightarrow> pystr option"
  sessions :: "path \<Rightarrow> nat \<Rightarrow> session"
  github :: "gh_call \<Rightarrow> gh_outcome"
  exists_at_cleanup :: bool

text \<open>What a run does, in order, at the level of the methods of the agent.\<close>

datatype step =
    CloneRepository | GitClone | Rmtree
  | FindPythonFiles
  | AnalyzeForCodeSmells path
  | ProcessFile path
  | CreatePullRequest
  | Github gh_call
  | Cleanup

subsection \<open>clone_repository\<close>

definition clone_repository :: "world \<Rightarrow> (py_error + unit) \<times> step list" where
  "clone_repository w =
     (let git = (case git_clone w of
                   None \<Rightarrow> (Inr (), [GitClone])
                 | Some e \<Rightarrow> (Inl e, [GitClone]))
      in if stale_copy w then
           (case stale_rmtree w of
              Some e \<Rightarrow> (Inl e, [CloneRepository, Rmtree])
            | None \<Rightarrow> (fst git, [CloneRepository, Rmtree] @ snd git))
         else (fst git, [CloneRepository] @ snd git))"

subsection \<open>find_python_files\<close>

definition excluded_dirs :: "pystr list" where
  "excluded_dirs = [str ''venv'', str ''.venv'', str ''env'', str ''.git'']"

fun walk :: "path \<Rightarrow> dirtree \<Rightarrow> path list" where
  "walk here (Dir dirs fs) =
     map (\<lambda>f. here @ [f]) (filter (\<lambda>f. endswith f (str ''.py'')) fs)
     @ concat (map (\<lambda>dt. walk (here @ [fst dt]) (snd dt))
                   (filter (\<lambda>dt. fst dt \<notin> set excluded_dirs) dirs))"

definition find_python_files :: "world \<Rightarrow> path list" where
  "find_python_files w = walk [] (tree w)"

subsection \<open>analyze_for_code_smells\<close>

text \<open>
  \<^verbatim>\<open>sum(1 for _ in f)\<close>: one line for each \<^verbatim>\<open>\n\<close>, and one more for a last line that
  does not end with \<^verbatim>\<open>\n\<close>.
\<close>

definition line_count :: "pystr \<Rightarrow> nat" where
  "line_count content =
     count_list content 10 + (if content \<noteq> [] \<and> last content \<noteq> 10 then 1 else 0)"

definition analyze_for_code_smells :: "world \<Rightarrow> path \<Rightarrow> int \<Rightarrow> bool" where
  "analyze_for_code_smells w file_path min_lines =
     (case files w file_path of
        None \<Rightarrow> False
      | Some content \<Rightarrow> if int (line_count content) > min_lines then True else False)"

definition default_min_lines :: int where
  "default_min_lines = 50"

subsection \<open>refactor_file_content\<close>

text \<open>
  One pass through the body of the retry loop: it returns from the function, or falls
  through the \<^verbatim>\<open>else\<close> branch of the status test, or lands in the \<^verbatim>\<open>except\<close> clause.
\<close>

datatype attempt_outcome = Returned pystr | NotOk | Excepted

definition attempt_once :: "session \<Rightarrow> request \<Rightarrow> pystr \<Rightarrow> attempt_outcome" where
  "attempt_once session req file_content =
     (case session req of
        Raises \<Rightarrow> Excepted
      | Response status body text \<Rightarrow>
          if status = 200 then
            (case body of
               None \<Rightarrow> Excepted
             | Some result \<Rightarrow>
                 (case py_get result (str ''candidates'') of
                    Inl e \<Rightarrow> Excepted
                  | Inr candidates \<Rightarrow>
                      if \<not> truthy candidates then Returned file_content
                      else (case extract_clean result gemini_path of
                              Inl e \<Rightarrow> Excepted
                            | Inr refactored_code \<Rightarrow> Returned refactored_code)))
          else (case text of None \<Rightarrow> Excepted | Some error_text \<Rightarrow> NotOk))"

text \<open>What the retry loop does that the caller of one file can observe besides the result.\<close>

datatype io_event = Post | Sleep nat

fun retry_loop ::
  "(nat \<Rightarrow> session) \<Rightarrow> request \<Rightarrow> pystr \<Rightarrow> nat list \<Rightarrow> pystr \<times> io_event list" where
  "retry_loop ss req file_content [] = (file_content, [])"
| "retry_loop ss req file_content (attempt # rest) =
     (case attempt_once (ss attempt) req file_content of
        Returned r \<Rightarrow> (r, [Post])
      | NotOk \<Rightarrow>
          (let (r, ev) = retry_loop ss req file_content rest in (r, Post # ev))
      | Excepted \<Rightarrow>
          (let (r, ev) = retry_loop ss req file_content rest
           in (r, Post # Sleep (2 ^ attempt) # ev)))"

definition max_retries :: nat where
  "max_retries = 3"

definition refactor_file_content ::
  "agent \<Rightarrow> (nat \<Rightarrow> session) \<Rightarrow> pystr \<Rightarrow> pystr \<times> io_event list" where
  "refactor_file_content self ss file_content =
     (let prompt = REFACTOR_PROMPT file_content;
          api_url = str ''https://generativelanguage.googleapis.com/v1beta/models/gemini-2.0-flash:generateContent?key=''
                    @ gemini_api_key self;
          payload = gemini_payload prompt;
          hdrs = [(str ''Content-Type'', str ''application/json'')]
      in retry_loop ss \<lparr>url = api_url, headers = hdrs, json_payload = payload\<rparr>
           file_content [0..<max_retries])"

subsection \<open>process_file\<close>

definition process_file :: "agent \<Rightarrow> world \<Rightarrow> path \<Rightarrow> path \<times> pystr option" where
  "process_file self w file_path =
     (case files w file_path of
        None \<Rightarrow> (file_path, None)
      | Some original_content \<Rightarrow>
          (let refactored_content =
                 fst (refactor_file_content self (sessions w file_path) original_content)
           in if refactored_content \<noteq> original_content
              then (file_path, Some refactored_content)
              else (file_path, None)))"

subsection \<open>create_pull_request\<close>

text \<open>Calls made one after the other until one raises; the flag says that none did.\<close>

fun gh_seq :: "world \<Rightarrow> gh_call list \<Rightarrow> bool \<times> step list" where
  "gh_seq w [] = (True, [])"
| "gh_seq w (c # cs) =
     (case github w c of
        Ok \<Rightarrow> (let (ok, ev) = gh_seq w cs in (ok, Github c # ev))
      | GithubException st \<Rightarrow> (False, [Github c])
      | OtherException \<Rightarrow> (False, [Github c]))"

text \<open>
  The inner \<^verbatim>\<open>try\<close>: delete the branch when it exists; a \<^verbatim>\<open>GithubException\<close> with
  status 404 is swallowed, anything else leaves \<^verbatim>\<open>create_pull_request\<close>.
\<close>

definition delete_existing_branch :: "world \<Rightarrow> bool \<times> step list" where
  "delete_existing_branch w =
     (case github w GetGitRef of
        Ok \<Rightarrow>
          (case github w DeleteRef of
             Ok \<Rightarrow> (True, [Github GetGitRef, Github DeleteRef])
           | GithubException st \<Rightarrow> (st = 404, [Github GetGitRef, Github DeleteRef])
           | OtherException \<Rightarrow> (False, [Github GetGitRef, Github DeleteRef]))
      | GithubException st \<Rightarrow> (st = 404, [Github GetGitRef])
      | OtherException \<Rightarrow> (False, [Github GetGitRef]))"

definition create_pull_request :: "world \<Rightarrow> (path \<times> pystr) list \<Rightarrow> step list" where
  "create_pull_request w refactored_files =
     (if refactored_files = [] then []
      else
        (let (ok1, ev1) = gh_seq w [GetRepo, GetBranch] in
         if \<not> ok1 then ev1
         else
           (let (ok2, ev2) = delete_existing_branch w in
            if \<not> ok2 then ev1 @ ev2
            else
              (let updates = concat (map (\<lambda>(file_path, content).
                                 [GetContents file_path, UpdateFile file_path content])
                               refactored_files);
                   (ok3, ev3) = gh_seq w ([CreateGitRef] @ updates @ [CreatePull])
               in ev1 @ ev2 @ ev3))))"

subsection \<open>cleanup\<close>

text \<open>An \<^verbatim>\<open>OSError\<close> of \<^verbatim>\<open>shutil.rmtree\<close> is caught and logged here.\<close>

definition cleanup :: "world \<Rightarrow> step list" where
  "cleanup w = (if exists_at_cleanup w then [Cleanup, Rmtree] else [Cleanup])"

subsection \<open>run\<close>

text \<open>
  The files for which a task is created, the results \<^verbatim>\<open>asyncio.gather\<close> returns for
  them (in the order of the tasks), and the dict built from the results.
\<close>

definition flagged_files :: "world \<Rightarrow> path list" where
  "flagged_files w =
     filter (\<lambda>file_path. analyze_for_code_smells w file_path default_min_lines)
            (find_python_files w)"

definition gather_results :: "agent \<Rightarrow> world \<Rightarrow> (path \<times> pystr option) list" where
  "gather_results self w = map (process_file self w) (flagged_files w)"

fun collect :: "(path \<times> pystr option) list \<Rightarrow> (path \<times> pystr) list \<Rightarrow> (path \<times> pystr) list" where
  "collect [] refactored_files = refactored_files"
| "collect ((file_path, refactored_content) # results) refactored_files =
     collect results
       (case refactored_content of
          None \<Rightarrow> refactored_files
        | Some c \<Rightarrow> if c \<noteq> [] then AList.update file_path c refactored_files
                    else refactored_files)"

definition refactor_batch :: "agent \<Rightarrow> world \<Rightarrow> (path \<times> pystr) list" where
  "refactor_batch self w = collect (gather_results self w) []"

text \<open>
  \<^verbatim>\<open>try: ... finally: ...\<close> with a final clause that does not raise: the clause runs
  after the body on every way out of it, and the outcome of the body, a value or an
  exception, is the outcome of the whole.
\<close>

definition try_finally ::
  "(py_error + 'a) \<times> step list \<Rightarrow> step list \<Rightarrow> (py_error + 'a) \<times> step list" where
  "try_finally body final = (fst body, snd body @ final)"

text \<open>The body of the \<^verbatim>\<open>try\<close> block of \<^verbatim>\<open>run\<close>.\<close>

definition run_body :: "agent \<Rightarrow> world \<Rightarrow> (py_error + unit) \<times> step list" where
  "run_body self w =
     (case clone_repository w of
        (Inl e, ev) \<Rightarrow> (Inl e, ev)
      | (Inr _, ev) \<Rightarrow>
          (let python_files = find_python_files w;
               refactored_files = refactor_batch self w
           in (Inr (),
               ev @ [FindPythonFiles]
                  @ map AnalyzeForCodeSmells python_files
                  @ map ProcessFile (flagged_files w)
                  @ (if refactored_files \<noteq> []
                     then CreatePullRequest # create_pull_request w refactored_files
                     else []))))"

definition run :: "agent \<Rightarrow> world \<Rightarrow> (py_error + unit) \<times> step list" where
  "run self w = try_finally (run_body self w) (cleanup w)"

section \<open>Facts about strings\<close>

lemma fence_python_code: "fence_python = [96, 96, 96, 112, 121, 116, 104, 111, 110]"
  by (simp add: fence_python_def str_def)

lemma fence_code: "fence = [96, 96, 96]"
  by (simp add: fence_def str_def)


lemma last_dropWhile_nonempty:
  "dropWhile P xs \<noteq> [] \<Longrightarrow> last (dropWhile P xs) = last xs"
proof -
  assume ne: "dropWhile P xs \<noteq> []"
  have "xs = takeWhile P xs @ dropWhile P xs" by simp
  then have "last xs = last (takeWhile P xs @ dropWhile P xs)" by simp
  also have "\<dots> = last (dropWhile P xs)" using ne by (rule last_appendR)
  finally show ?thesis by simp
qed

lemma dropWhile_hd_id: "xs \<noteq> [] \<Longrightarrow> \<not> P (hd xs) \<Longrightarrow> dropWhile P xs = xs"
  by (cases xs) simp_all


lemma stripped_strip: "stripped (strip s)"
proof -
  define l where "l = dropWhile isspace s"
  define m where "m = dropWhile isspace (rev l)"
  have st: "strip s = rev m" by (simp add: strip_def l_def m_def)
  show ?thesis
  proof (cases "m = []")
    case True
    then show ?thesis by (simp add: st stripped_def)
  next
    case False
    then have hm: "\<not> isspace (hd m)" unfolding m_def by (rule hd_dropWhile)
    have lm: "last m = last (rev l)" using False unfolding m_def
      by (rule last_dropWhile_nonempty)
    have lne: "l \<noteq> []" using False by (auto simp: m_def)
    then have hl: "\<not> isspace (hd l)" unfolding l_def by (rule hd_dropWhile)
    have "hd (rev m) = last m" using False by (simp add: hd_rev)
    also have "\<dots> = hd l" using lm lne by (simp add: last_rev)
    finally have a: "\<not> isspace (hd (rev m))" using hl by simp
    have b: "\<not> isspace (last (rev m))" using hm False by (simp add: last_rev)
    show ?thesis using a b by (simp add: st stripped_def)
  qed
qed

lemma strip_stripped: "stripped s \<Longrightarrow> strip s = s"
proof (cases "s = []")
  case True
  then show ?thesis by (simp add: strip_def)
next
  case False
  assume "stripped s"
  with False have h: "\<not> isspace (hd s)" and l: "\<not> isspace (last s)"
    by (simp_all add: stripped_def)
  have 1: "dropWhile isspace s = s" using False h by (rule dropWhile_hd_id)
  have 2: "dropWhile isspace (rev s) = rev s"
    using False l by (intro dropWhile_hd_id) (simp_all add: hd_rev)
  show ?thesis by (simp add: strip_def 1 2)
qed


lemma length_strip_le: "length (strip s) \<le> length s"
proof -
  have "length (dropWhile isspace (rev (dropWhile isspace s)))
          \<le> length (rev (dropWhile isspace s))"
    by (rule length_dropWhile_le)
  then have "length (strip s) \<le> length (dropWhile isspace s)"
    by (simp add: strip_def)
  also have "\<dots> \<le> length s" by (rule length_dropWhile_le)
  finally show ?thesis .
qed







lemma startswith_length: "startswith s p \<Longrightarrow> length p \<le> length s"
proof -
  assume "startswith s p"
  then have "length (take (length p) s) = length p" by (simp add: startswith_def)
  then show ?thesis by simp
qed

section \<open>Response cleanup\<close>





lemma stripped_clean: "stripped (clean_response x)"
  unfolding clean_response_def Let_def by (rule stripped_strip)

lemma clean_no_fence:
  assumes "stripped y" and "\<not> startswith y fence_python" and "\<not> endswith y fence"
  shows "clean_response y = y"
proof -
  have sy: "strip y = y" using assms(1) by (rule strip_stripped)
  show ?thesis unfolding clean_response_def Let_def sy using assms(2,3) sy by simp
qed

lemma length_second_step:
  "length (strip (if endswith (strip r1) fence
                  then take (length (strip r1) - 3) (strip r1) else r1)) \<le> length r1"
proof (cases "endswith (strip r1) fence")
  case True
  have "length (strip (take (length (strip r1) - 3) (strip r1)))
        \<le> length (take (length (strip r1) - 3) (strip r1))"
    by (rule length_strip_le)
  also have "\<dots> \<le> length (strip r1)" by simp
  also have "\<dots> \<le> length r1" by (rule length_strip_le)
  finally show ?thesis using True by (simp only: if_True)
next
  case False
  then show ?thesis by (simp only: if_False length_strip_le)
qed

lemma clean_shorter_start:
  assumes "stripped y" and "startswith y fence_python"
  shows "length (clean_response y) < length y"
proof -
  have sy: "strip y = y" using assms(1) by (rule strip_stripped)
  have "length fence_python \<le> length y"
    using assms(2) by (rule startswith_length)
  then have 9: "9 \<le> length y" by (simp add: fence_python_code)
  have "clean_response y = strip (if endswith (strip (drop 9 y)) fence
                  then take (length (strip (drop 9 y)) - 3) (strip (drop 9 y)) else drop 9 y)"
    unfolding clean_response_def Let_def sy using assms(2) by (simp only: if_True)
  then have "length (clean_response y) \<le> length (drop 9 y)"
    by (simp only: length_second_step)
  then show ?thesis using 9 by simp
qed

lemma clean_shorter_end:
  assumes "stripped y" and "\<not> startswith y fence_python" and "endswith y fence"
  shows "length (clean_response y) < length y"
proof -
  have sy: "strip y = y" using assms(1) by (rule strip_stripped)
  have 3: "3 \<le> length y" using assms(3) by (simp add: endswith_def fence_code)
  have "clean_response y = strip (take (length y - 3) y)"
    unfolding clean_response_def Let_def sy using assms(2,3) sy by (simp only: if_False if_True)
  then have "length (clean_response y) \<le> length (take (length y - 3) y)"
    by (simp only: length_strip_le)
  then show ?thesis using 3 by simp
qed

lemmas clean_eval =
  clean_response_def Let_def strip_def startswith_def endswith_def
  fence_python_code fence_code str_def isspace_def

text \<open>
  Claim C2 (as stated): the cleanup is idempotent, \<open>clean (clean x) = clean x\<close> for every
  string \<open>x\<close>. It is not: one application removes one opening marker and one closing
  marker, so a response that carries the opening marker twice is cleaned further by a
  second application.
\<close>

theorem clean_response_not_idempotent:
  "clean_response (clean_response (str ''```python```python\<newline>foo''))
     \<noteq> clean_response (str ''```python```python\<newline>foo'')"
  by (simp add: clean_eval)

text \<open>
  Claim C2 (amended): a second application of the cleanup changes nothing exactly when
  the first result neither starts with the opening marker \<^verbatim>\<open>```python\<close> nor ends with
  the closing marker \<^verbatim>\<open>```\<close>.
\<close>

theorem clean_response_idempotent_iff:
  "clean_response (clean_response x) = clean_response x \<longleftrightarrow>
     \<not> startswith (clean_response x) fence_python \<and> \<not> endswith (clean_response x) fence"
proof -
  define y where "y = clean_response x"
  have st: "stripped y" unfolding y_def by (rule stripped_clean)
  have "clean_response y = y \<longleftrightarrow> \<not> startswith y fence_python \<and> \<not> endswith y fence"
  proof
    assume eq: "clean_response y = y"
    show "\<not> startswith y fence_python \<and> \<not> endswith y fence"
    proof (rule ccontr)
      assume "\<not> (\<not> startswith y fence_python \<and> \<not> endswith y fence)"
      then consider "startswith y fence_python"
        | "\<not> startswith y fence_python" "endswith y fence" by blast
      then have "length (clean_response y) < length y"
      proof cases
        case 1
        with st show ?thesis by (rule clean_shorter_start)
      next
        case 2
        with st show ?thesis by (rule clean_shorter_end)
      qed
      with eq show False by simp
    qed
  next
    assume "\<not> startswith y fence_python \<and> \<not> endswith y fence"
    with st show "clean_response y = y" by (simp add: clean_no_fence)
  qed
  then show ?thesis by (simp only: y_def)
qed

theorem clean_response_idempotent_iff_witness:
  "clean_response (clean_response (str ''```python\<newline>x = 1\<newline>```''))
     = clean_response (str ''```python\<newline>x = 1\<newline>```'')
   \<and> \<not> startswith (clean_response (str ''```python\<newline>x = 1\<newline>```'')) fence_python
   \<and> \<not> endswith (clean_response (str ''```python\<newline>x = 1\<newline>```'')) fence"
proof -
  have a: "\<not> startswith (clean_response (str ''```python\<newline>x = 1\<newline>```'')) fence_python"
    by (simp add: clean_eval)
  have b: "\<not> endswith (clean_response (str ''```python\<newline>x = 1\<newline>```'')) fence"
    by (simp add: clean_eval)
  show ?thesis
    using a b clean_response_idempotent_iff [of "str ''```python\<newline>x = 1\<newline>```''"]
    by blast
qed











section \<open>Provider adapters\<close>

lemma adapter_result_null: "adapter_result JNull field path file_content = Inr file_content"
  by (simp add: adapter_result_def)

lemma adapter_result_absent:
  "map_of kvs field = None \<Longrightarrow>
     adapter_result (JObj kvs) field path file_content = Inr file_content"
  by (simp add: adapter_result_def)

lemma str_candidates_code:
  "str ''candidates'' = [99, 97, 110, 100, 105, 100, 97, 116, 101, 115]"
  by (simp add: str_def)

lemma str_content_code: "str ''content'' = [99, 111, 110, 116, 101, 110, 116]"
  by (simp add: str_def)

lemma str_choices_code: "str ''choices'' = [99, 104, 111, 105, 99, 101, 115]"
  by (simp add: str_def)

lemma str_message_code: "str ''message'' = [109, 101, 115, 115, 97, 103, 101]"
  by (simp add: str_def)

lemma str_text_code: "str ''text'' = [116, 101, 120, 116]"
  by (simp add: str_def)

text \<open>
  When the helper gives \<^verbatim>\<open>None\<close> for the request the adapter sends, or a JSON object
  without the top-level key the adapter tests, the adapter returns the original content.
\<close>

lemma refactor_with_gemini_original:
  assumes "make_request session
             (str ''https://generativelanguage.googleapis.com/v1beta/models/gemini-1.5-flash:generateContent?key='' @ api_key)
             [(str ''Content-Type'', str ''application/json'')]
             (gemini_payload (REFACTOR_PROMPT file_content)) = r"
    and "r = JNull \<or> (\<exists>kvs. r = JObj kvs \<and> map_of kvs (str ''candidates'') = None)"
  shows "refactor_with_gemini session file_content api_key = Inr file_content"
  using assms unfolding refactor_with_gemini_def Let_def
  by (auto simp: adapter_result_null adapter_result_absent)

lemma refactor_with_openai_original:
  assumes "make_request session (str ''https://api.openai.com/v1/chat/completions'')
             [(str ''Authorization'', str ''Bearer '' @ api_key),
              (str ''Content-Type'', str ''application/json'')]
             (JObj (chat_payload (str ''gpt-4o'') file_content)) = r"
    and "r = JNull \<or> (\<exists>kvs. r = JObj kvs \<and> map_of kvs (str ''choices'') = None)"
  shows "refactor_with_openai session file_content api_key = Inr file_content"
  using assms unfolding refactor_with_openai_def Let_def
  by (auto simp: adapter_result_null adapter_result_absent)

lemma refactor_with_anthropic_original:
  assumes "make_request session (str ''https://api.anthropic.com/v1/messages'')
             [(str ''x-api-key'', api_key),
              (str ''anthropic-version'', str ''2023-06-01''),
              (str ''Content-Type'', str ''application/json'')]
             (JObj [(str ''model'', JStr (str ''claude-3-sonnet-20240229'')),
                    (str ''max_tokens'', JInt 4096),
                    (str ''messages'',
                       JArr [JObj [(str ''role'', JStr (str ''user'')),
                                   (str ''content'', JStr (REFACTOR_PROMPT file_content))]])]) = r"
    and "r = JNull \<or> (\<exists>kvs. r = JObj kvs \<and> map_of kvs (str ''content'') = None)"
  shows "refactor_with_anthropic session file_content api_key = Inr file_content"
  using assms unfolding refactor_with_anthropic_def Let_def
  by (auto simp: adapter_result_null adapter_result_absent)

lemma refactor_with_deepseek_original:
  assumes "make_request session (str ''https://api.deepseek.com/v1/chat/completions'')
             [(str ''Authorization'', str ''Bearer '' @ api_key),
              (str ''Content-Type'', str ''application/json'')]
             (JObj (chat_payload (str ''deepseek-coder'') file_content)) = r"
    and "r = JNull \<or> (\<exists>kvs. r = JObj kvs \<and> map_of kvs (str ''choices'') = None)"
  shows "refactor_with_deepseek session file_content api_key = Inr file_content"
  using assms unfolding refactor_with_deepseek_def Let_def
  by (auto simp: adapter_result_null adapter_result_absent)

lemma attempts_code: "[0..<max_retries] = [0, 1, 2]"
  by (simp add: max_retries_def upt_rec)

text \<open>
  Claim C4: when the transport helper returns null, or the expected field is absent
  from the JSON response, an adapter returns the original content rather than raising.
  The code at a reply with status 200 whose top-level key is there but whose first
  entry lacks the field below it: each of the four adapters raises \<^verbatim>\<open>KeyError\<close>, since
  only the top-level key is tested and the subscripts that follow are not guarded. The
  retry loop of \<^verbatim>\<open>app.py\<close>, which reads the same Gemini reply by the same subscripts,
  returns the original content.
\<close>

theorem refactor_with_gemini_raises:
  "refactor_with_gemini
     (\<lambda>req. Response 200 (Some (JObj [(str ''candidates'', JArr [JObj []])])) None)
     (str ''x = 1'') (str ''secret'') = Inl KeyError
   \<and> refactor_with_openai
     (\<lambda>req. Response 200 (Some (JObj [(str ''choices'', JArr [JObj []])])) None)
     (str ''x = 1'') (str ''secret'') = Inl KeyError
   \<and> refactor_with_anthropic
     (\<lambda>req. Response 200 (Some (JObj [(str ''content'', JArr [JObj []])])) None)
     (str ''x = 1'') (str ''secret'') = Inl KeyError
   \<and> refactor_with_deepseek
     (\<lambda>req. Response 200 (Some (JObj [(str ''choices'', JArr [JObj []])])) None)
     (str ''x = 1'') (str ''secret'') = Inl KeyError
   \<and> refactor_file_content
     \<lparr>repo_url = str ''https://github.com/o/r'', github_token = str ''t'',
      gemini_api_key = str ''secret''\<rparr>
     (\<lambda>attempt req. Response 200 (Some (JObj [(str ''candidates'', JArr [JObj []])])) None)
     (str ''x = 1'')
     = (str ''x = 1'', [Post, Sleep 1, Post, Sleep 2, Post, Sleep 4])"
proof -
  have g: "refactor_with_gemini
     (\<lambda>req. Response 200 (Some (JObj [(str ''candidates'', JArr [JObj []])])) None)
     (str ''x = 1'') (str ''secret'') = Inl KeyError"
    by (simp add: refactor_with_gemini_def make_request_def adapter_result_def
        extract_clean_def gemini_path_def Let_def str_candidates_code str_content_code)
  have o: "refactor_with_openai
     (\<lambda>req. Response 200 (Some (JObj [(str ''choices'', JArr [JObj []])])) None)
     (str ''x = 1'') (str ''secret'') = Inl KeyError"
    by (simp add: refactor_with_openai_def make_request_def adapter_result_def
        extract_clean_def chat_path_def Let_def str_choices_code str_message_code)
  have a: "refactor_with_anthropic
     (\<lambda>req. Response 200 (Some (JObj [(str ''content'', JArr [JObj []])])) None)
     (str ''x = 1'') (str ''secret'') = Inl KeyError"
    by (simp add: refactor_with_anthropic_def make_request_def adapter_result_def
        extract_clean_def anthropic_path_def Let_def str_content_code str_text_code)
  have d: "refactor_with_deepseek
     (\<lambda>req. Response 200 (Some (JObj [(str ''choices'', JArr [JObj []])])) None)
     (str ''x = 1'') (str ''secret'') = Inl KeyError"
    by (simp add: refactor_with_deepseek_def make_request_def adapter_result_def
        extract_clean_def chat_path_def Let_def str_choices_code str_message_code)
  have t: "attempt_once
             (\<lambda>req. Response 200 (Some (JObj [(str ''candidates'', JArr [JObj []])])) None)
             req file_content = Excepted" for req file_content
    by (simp add: attempt_once_def extract_clean_def gemini_path_def
        str_candidates_code str_content_code)
  have r: "refactor_file_content
     \<lparr>repo_url = str ''https://github.com/o/r'', github_token = str ''t'',
      gemini_api_key = str ''secret''\<rparr>
     (\<lambda>attempt req. Response 200 (Some (JObj [(str ''candidates'', JArr [JObj []])])) None)
     (str ''x = 1'')
     = (str ''x = 1'', [Post, Sleep 1, Post, Sleep 2, Post, Sleep 4])"
    by (simp add: refactor_file_content_def Let_def attempts_code t)
  from g o a d r show ?thesis by simp
qed

section \<open>Provider dictionary\<close>

text \<open>
  Claim C10: the provider dictionary has exactly the four keys \<^verbatim>\<open>gemini\<close>, \<^verbatim>\<open>openai\<close>,
  \<^verbatim>\<open>claude\<close> and \<^verbatim>\<open>deepseek\<close>, each with the adapter function and the name of the
  credential variable of that provider; the Anthropic adapter is under \<^verbatim>\<open>claude\<close> only,
  and a lookup of \<^verbatim>\<open>anthropic\<close> or of any other key is a \<^verbatim>\<open>KeyError\<close>.
\<close>

theorem MODEL_PROVIDERS_lookup:
  "map fst MODEL_PROVIDERS = [str ''gemini'', str ''openai'', str ''claude'', str ''deepseek'']
   \<and> dict_getitem MODEL_PROVIDERS k =
       (if k = str ''gemini'' then
          Inr \<lparr>adapter_function = refactor_with_gemini, api_key_name = str ''GEMINI_API_KEY''\<rparr>
        else if k = str ''openai'' then
          Inr \<lparr>adapter_function = refactor_with_openai, api_key_name = str ''OPENAI_API_KEY''\<rparr>
        else if k = str ''claude'' then
          Inr \<lparr>adapter_function = refactor_with_anthropic, api_key_name = str ''ANTHROPIC_API_KEY''\<rparr>
        else if k = str ''deepseek'' then
          Inr \<lparr>adapter_function = refactor_with_deepseek, api_key_name = str ''DEEPSEEK_API_KEY''\<rparr>
        else Inl KeyError)
   \<and> dict_getitem MODEL_PROVIDERS (str ''anthropic'') = Inl KeyError"
  by (simp add: MODEL_PROVIDERS_def dict_getitem_def str_def)

theorem MODEL_PROVIDERS_lookup_witness:
  "dict_getitem MODEL_PROVIDERS (str ''claude'')
     = Inr \<lparr>adapter_function = refactor_with_anthropic, api_key_name = str ''ANTHROPIC_API_KEY''\<rparr>
   \<and> dict_getitem MODEL_PROVIDERS (str ''Gemini'') = Inl KeyError"
  using MODEL_PROVIDERS_lookup [of "str ''claude''"] MODEL_PROVIDERS_lookup [of "str ''Gemini''"]
  by (simp add: str_def)

section \<open>The retry loop of refactor_file_content\<close>

lemma attempt_once_raises: "attempt_once (\<lambda>req. Raises) req file_content = Excepted"
  by (simp add: attempt_once_def)

lemma attempt_once_status:
  "status \<noteq> 200 \<Longrightarrow>
     attempt_once (\<lambda>req. Response status body (Some error_text)) req file_content = NotOk"
  by (simp add: attempt_once_def)

text \<open>
  Whatever way the attempts fail, each of them is made and the original content comes
  back: the loop posts once per attempt and returns \<open>file_content\<close>.
\<close>

lemma retry_loop_all_fail:
  assumes "\<forall>attempt \<in> set attempts. \<forall>r. attempt_once (ss attempt) req file_content \<noteq> Returned r"
  shows "fst (retry_loop ss req file_content attempts) = file_content
         \<and> count_list (snd (retry_loop ss req file_content attempts)) Post = length attempts"
  using assms
proof (induction attempts)
  case Nil
  then show ?case by simp
next
  case (Cons attempt rest)
  then have ih: "fst (retry_loop ss req file_content rest) = file_content"
      "count_list (snd (retry_loop ss req file_content rest)) Post = length rest"
    by simp_all
  from Cons.prems have "\<forall>r. attempt_once (ss attempt) req file_content \<noteq> Returned r"
    by simp
  then consider "attempt_once (ss attempt) req file_content = NotOk"
    | "attempt_once (ss attempt) req file_content = Excepted"
    by (cases "attempt_once (ss attempt) req file_content") auto
  then show ?case
    using ih by cases (simp_all add: case_prod_unfold)
qed

text \<open>The delay is in the \<^verbatim>\<open>except\<close> clause: it follows every attempt that raised.\<close>

lemma retry_loop_all_raise:
  assumes "\<forall>attempt \<in> set attempts. attempt_once (ss attempt) req file_content = Excepted"
  shows "retry_loop ss req file_content attempts
           = (file_content, concat (map (\<lambda>attempt. [Post, Sleep (2 ^ attempt)]) attempts))"
  using assms by (induction attempts) simp_all

text \<open>
  Claim C1: when every transport interaction fails, the retry loop makes exactly 3
  attempts, sleeps \<open>2 ^ attempt\<close> between consecutive attempts and returns the original
  content. The code at a failing transport that answers every POST with status 500:
  three attempts and the original content, but no sleep at all, since the delay sits in
  the \<^verbatim>\<open>except\<close> clause and a non-200 status raises nothing.
\<close>

theorem refactor_file_content_status_500:
  "refactor_file_content
     \<lparr>repo_url = str ''https://github.com/o/r'', github_token = str ''t'',
      gemini_api_key = str ''k''\<rparr>
     (\<lambda>attempt req. Response 500 None (Some (str ''overloaded'')))
     (str ''x = 1'')
   = (str ''x = 1'', [Post, Post, Post])"
  by (simp add: refactor_file_content_def Let_def attempts_code attempt_once_status)

section \<open>The smell filter\<close>


lemma count_list_replicate_same: "count_list (replicate n x) x = n"
  by (induction n) simp_all

lemma line_count_newlines: "line_count (replicate n 10) = n"
  by (cases n) (simp_all add: line_count_def count_list_replicate_same)


section \<open>The workflow\<close>

subsection \<open>Results of the tasks and the batch\<close>

lemma fst_process_file: "fst (process_file self w file_path) = file_path"
  by (simp add: process_file_def Let_def split: option.split)

lemma snd_process_file_Some:
  assumes "snd (process_file self w file_path) = Some c"
  shows "\<exists>orig. files w file_path = Some orig \<and> c \<noteq> orig"
proof (cases "files w file_path")
  case None
  with assms show ?thesis by (simp add: process_file_def)
next
  case (Some orig)
  with assms have "c \<noteq> orig"
    by (auto simp: process_file_def Let_def split: if_splits)
  with Some show ?thesis by simp
qed

lemma set_update_cases:
  "(p, c) \<in> set (AList.update k v d) \<Longrightarrow> (p, c) = (k, v) \<or> (p, c) \<in> set d"
  by (induction d) (auto split: if_splits)

lemma collect_entries:
  "(p, c) \<in> set (collect results d) \<Longrightarrow>
     (p, c) \<in> set d \<or> ((p, Some c) \<in> set results \<and> c \<noteq> [])"
proof (induction results arbitrary: d)
  case Nil
  then show ?case by simp
next
  case (Cons r results)
  obtain q rc where r: "r = (q, rc)" by (cases r)
  show ?case
  proof (cases rc)
    case None
    with Cons r show ?thesis by fastforce
  next
    case (Some c')
    show ?thesis
    proof (cases "c' = []")
      case True
      with Cons r Some show ?thesis by fastforce
    next
      case False
      with Cons.prems r Some
      have "(p, c) \<in> set (collect results (AList.update q c' d))" by simp
      then have "(p, c) \<in> set (AList.update q c' d)
                 \<or> ((p, Some c) \<in> set results \<and> c \<noteq> [])"
        by (rule Cons.IH)
      then show ?thesis
        using r Some False by (auto dest: set_update_cases)
    qed
  qed
qed

lemma collect_append: "collect (rs1 @ rs2) d = collect rs2 (collect rs1 d)"
  by (induction rs1 arbitrary: d) auto

lemma refactor_batch_entry:
  assumes "(file_path, c) \<in> set (refactor_batch self w)"
  shows "c \<noteq> [] \<and> snd (process_file self w file_path) = Some c"
proof -
  from assms have "(file_path, Some c) \<in> set (gather_results self w) \<and> c \<noteq> []"
    unfolding refactor_batch_def by (auto dest: collect_entries)
  then obtain q where q: "process_file self w q = (file_path, Some c)" and ne: "c \<noteq> []"
    by (auto simp: gather_results_def)
  from q have "fst (process_file self w q) = file_path" by simp
  then have "q = file_path" by (simp add: fst_process_file)
  with q ne show ?thesis by simp
qed

text \<open>
  Claim C5: every entry of the batch (the dict handed to \<^verbatim>\<open>create_pull_request\<close>) has a
  content that is not \<^verbatim>\<open>None\<close> and differs from the original content of that file;
  equivalently, the result of \<^verbatim>\<open>process_file\<close> for a file, when its content is not
  \<^verbatim>\<open>None\<close>, differs from the content read from that file.
\<close>

theorem refactor_batch_differs_from_original:
  "(snd (process_file self w file_path) = Some c \<longrightarrow>
      fst (process_file self w file_path) = file_path
      \<and> (\<exists>orig. files w file_path = Some orig \<and> c \<noteq> orig))
   \<and> ((file_path, c) \<in> set (refactor_batch self w) \<longrightarrow>
      snd (process_file self w file_path) = Some c
      \<and> (\<exists>orig. files w file_path = Some orig \<and> c \<noteq> orig))"
  by (auto simp: fst_process_file dest: snd_process_file_Some refactor_batch_entry)

subsection \<open>Steps of a run\<close>

lemma gh_seq_steps: "set (snd (gh_seq w cs)) \<subseteq> range Github"
  by (induction cs) (auto split: gh_outcome.splits prod.splits)

lemma delete_existing_branch_steps: "set (snd (delete_existing_branch w)) \<subseteq> range Github"
  by (auto simp: delete_existing_branch_def split: gh_outcome.splits)

lemma create_pull_request_empty: "create_pull_request w [] = []"
  by (simp add: create_pull_request_def)

lemma create_pull_request_steps: "set (create_pull_request w fs) \<subseteq> range Github"
proof -
  have 1: "set (snd (gh_seq w cs)) \<subseteq> range Github" for cs by (rule gh_seq_steps)
  have 2: "set (snd (delete_existing_branch w)) \<subseteq> range Github"
    by (rule delete_existing_branch_steps)
  show ?thesis
    unfolding create_pull_request_def Let_def case_prod_unfold
    using 1 2 by (simp del: gh_seq.simps)
qed

lemma clone_repository_steps:
  "set (snd (clone_repository w)) \<subseteq> {CloneRepository, GitClone, Rmtree}"
  by (auto simp: clone_repository_def Let_def split: option.splits)

lemma run_body_clone_fails:
  "fst (clone_repository w) = Inl e \<Longrightarrow> run_body self w = (Inl e, snd (clone_repository w))"
  by (cases "clone_repository w") (simp add: run_body_def)

lemma run_body_no_cleanup: "Cleanup \<notin> set (snd (run_body self w))"
proof (cases "clone_repository w")
  case (Pair r ev)
  have c: "Cleanup \<notin> set ev"
    using clone_repository_steps [of w] Pair by auto
  have p: "Cleanup \<notin> set (create_pull_request w fs)" for fs
    using create_pull_request_steps [of w fs] by auto
  show ?thesis
  proof (cases r)
    case (Inl e)
    with Pair c show ?thesis by (simp add: run_body_def)
  next
    case (Inr u)
    with Pair c p show ?thesis by (auto simp: run_body_def Let_def)
  qed
qed

lemma run_unfold: "run self w = (fst (run_body self w), snd (run_body self w) @ cleanup w)"
  by (simp add: run_def try_finally_def)

lemma count_cleanup: "count_list (cleanup w) Cleanup = 1"
  by (simp add: cleanup_def)

text \<open>
  Claim C7: on every way out of a run the cleanup executes exactly once: after a
  successful completion and after a step that raised. When cloning fails, nothing of
  discovery, filtering, dispatch or publishing runs, and the cleanup still executes.
  The cleanup is the last thing of the run: the call of \<^verbatim>\<open>cleanup\<close> and, when the clone
  directory exists, the one \<^verbatim>\<open>shutil.rmtree\<close> that removes it.
  In \<^verbatim>\<open>run\<close> only \<^verbatim>\<open>clone_repository\<close> lets an exception out, since the filter,
  the tasks and the publisher catch theirs; the \<^verbatim>\<open>finally\<close> clause adds the one cleanup
  to whatever steps a body has made, and keeps its outcome.
\<close>

theorem run_cleanup_exactly_once:
  "count_list (snd (run self w)) Cleanup = 1
   \<and> snd (run self w) = snd (run_body self w) @ cleanup w
   \<and> Cleanup \<notin> set (snd (run_body self w))
   \<and> fst (run self w) = fst (run_body self w)
   \<and> count_list (snd (try_finally body (cleanup w))) Cleanup
       = count_list (snd body) Cleanup + 1
   \<and> (fst (clone_repository w) = Inl e \<longrightarrow>
        run self w = (Inl e, snd (clone_repository w) @ cleanup w)
        \<and> set (snd (run self w)) \<subseteq> {CloneRepository, GitClone, Rmtree, Cleanup})
   \<and> (exists_at_cleanup w \<longrightarrow>
        snd (run self w) = snd (run_body self w) @ [Cleanup, Rmtree])
   \<and> (\<not> exists_at_cleanup w \<longrightarrow>
        snd (run self w) = snd (run_body self w) @ [Cleanup])
   \<and> (fst (clone_repository w) = Inl e \<longrightarrow> exists_at_cleanup w \<longrightarrow>
        run self w = (Inl e, snd (clone_repository w) @ [Cleanup, Rmtree]))"
proof -
  have n: "Cleanup \<notin> set (snd (run_body self w))" by (rule run_body_no_cleanup)
  then have "count_list (snd (run_body self w)) Cleanup = 0"
    by (simp add: count_list_0_iff)
  then have 1: "count_list (snd (run self w)) Cleanup = 1"
    by (simp add: run_unfold count_cleanup)
  have 2: "snd (run self w) = snd (run_body self w) @ cleanup w"
    by (simp add: run_unfold)
  have 3: "run self w = (Inl e, snd (clone_repository w) @ cleanup w)
           \<and> set (snd (run self w)) \<subseteq> {CloneRepository, GitClone, Rmtree, Cleanup}"
    if f: "fst (clone_repository w) = Inl e"
  proof -
    have b: "run_body self w = (Inl e, snd (clone_repository w))"
      using f by (rule run_body_clone_fails)
    have r: "run self w = (Inl e, snd (clone_repository w) @ cleanup w)"
      by (simp add: run_unfold b)
    have "set (cleanup w) \<subseteq> {Cleanup, Rmtree}" by (simp add: cleanup_def)
    with clone_repository_steps [of w] r show ?thesis by auto
  qed
  have 4: "fst (run self w) = fst (run_body self w)"
    by (simp add: run_unfold)
  have 5: "count_list (snd (try_finally body (cleanup w))) Cleanup
             = count_list (snd body) Cleanup + 1"
    by (simp add: try_finally_def count_cleanup)
  have 6: "snd (run self w) = snd (run_body self w) @ [Cleanup, Rmtree]"
    if "exists_at_cleanup w"
    using that by (simp add: run_unfold cleanup_def)
  have 7: "snd (run self w) = snd (run_body self w) @ [Cleanup]"
    if "\<not> exists_at_cleanup w"
    using that by (simp add: run_unfold cleanup_def)
  have 8: "run self w = (Inl e, snd (clone_repository w) @ [Cleanup, Rmtree])"
    if f: "fst (clone_repository w) = Inl e" and x: "exists_at_cleanup w"
  proof -
    have "run_body self w = (Inl e, snd (clone_repository w))"
      using f by (rule run_body_clone_fails)
    then show ?thesis using x by (simp add: run_unfold cleanup_def)
  qed
  from 1 2 n 3 4 5 6 7 8 show ?thesis by blast
qed

subsection \<open>A run on one long file\<close>

text \<open>
  Evaluation of the steps on a clone that holds the single file \<^verbatim>\<open>a.py\<close> of 51 lines,
  for any transport: used by the examples below.
\<close>

lemma find_python_files_single:
  "tree w = Dir [] [str ''a.py''] \<Longrightarrow> find_python_files w = [[str ''a.py'']]"
  by (simp add: find_python_files_def endswith_def str_def)

lemma flagged_files_single:
  assumes "tree w = Dir [] [str ''a.py'']" and "files w = (\<lambda>p. Some (replicate 51 10))"
  shows "flagged_files w = [[str ''a.py'']]"
proof -
  have "analyze_for_code_smells w [str ''a.py''] default_min_lines"
    by (simp add: analyze_for_code_smells_def assms(2) line_count_newlines
        default_min_lines_def)
  then show ?thesis
    by (simp add: flagged_files_def find_python_files_single [OF assms(1)])
qed

lemma attempt_once_text:
  "attempt_once
     (\<lambda>req. Response 200
        (Some (JObj [(str ''candidates'',
           JArr [JObj [(str ''content'',
             JObj [(str ''parts'', JArr [JObj [(str ''text'', JStr t)]])])]])])) None)
     req file_content
   = Returned (clean_response t)"
  by (simp add: attempt_once_def extract_clean_def gemini_path_def)

lemma refactor_file_content_text:
  "refactor_file_content self
     (\<lambda>attempt req. Response 200
        (Some (JObj [(str ''candidates'',
           JArr [JObj [(str ''content'',
             JObj [(str ''parts'', JArr [JObj [(str ''text'', JStr t)]])])]])])) None)
     file_content
   = (clean_response t, [Post])"
  by (simp add: refactor_file_content_def Let_def attempts_code attempt_once_text)

lemma refactor_file_content_raises:
  "refactor_file_content self (\<lambda>attempt req. Raises) file_content
   = (file_content, [Post, Sleep 1, Post, Sleep 2, Post, Sleep 4])"
  by (simp add: refactor_file_content_def Let_def attempts_code attempt_once_raises)

lemma short_neq_long: "length s < 51 \<Longrightarrow> s \<noteq> replicate 51 (10::nat)"
  by auto

theorem run_cleanup_exactly_once_witness:
  "run \<lparr>repo_url = str ''https://github.com/o/r'', github_token = str ''t'',
        gemini_api_key = str ''k''\<rparr>
       \<lparr>stale_copy = False, stale_rmtree = None, git_clone = Some CalledProcessError,
        tree = Dir [] [str ''a.py''], files = (\<lambda>p. Some (replicate 51 10)),
        sessions = (\<lambda>p attempt req. Raises), github = (\<lambda>c. Ok),
        exists_at_cleanup = True\<rparr>
     = (Inl CalledProcessError, [CloneRepository, GitClone, Cleanup, Rmtree])
   \<and> run \<lparr>repo_url = str ''https://github.com/o/r'', github_token = str ''t'',
        gemini_api_key = str ''k''\<rparr>
       \<lparr>stale_copy = False, stale_rmtree = None, git_clone = Some CalledProcessError,
        tree = Dir [] [str ''a.py''], files = (\<lambda>p. Some (replicate 51 10)),
        sessions = (\<lambda>p attempt req. Raises), github = (\<lambda>c. Ok),
        exists_at_cleanup = False\<rparr>
     = (Inl CalledProcessError, [CloneRepository, GitClone, Cleanup])
   \<and> run \<lparr>repo_url = str ''https://github.com/o/r'', github_token = str ''t'',
        gemini_api_key = str ''k''\<rparr>
       \<lparr>stale_copy = False, stale_rmtree = None, git_clone = None,
        tree = Dir [] [str ''a.py''], files = (\<lambda>p. Some (replicate 51 10)),
        sessions = (\<lambda>p attempt req. Raises), github = (\<lambda>c. Ok),
        exists_at_cleanup = True\<rparr>
     = (Inr (), [CloneRepository, GitClone, FindPythonFiles,
                 AnalyzeForCodeSmells [str ''a.py''], ProcessFile [str ''a.py''],
                 Cleanup, Rmtree])"
proof -
  let ?self = "\<lparr>repo_url = str ''https://github.com/o/r'', github_token = str ''t'',
        gemini_api_key = str ''k''\<rparr>"
  let ?wf = "\<lparr>stale_copy = False, stale_rmtree = None, git_clone = Some CalledProcessError,
        tree = Dir [] [str ''a.py''], files = (\<lambda>p. Some (replicate 51 10)),
        sessions = (\<lambda>p attempt req. Raises), github = (\<lambda>c. Ok),
        exists_at_cleanup = True\<rparr>"
  let ?wn = "\<lparr>stale_copy = False, stale_rmtree = None, git_clone = Some CalledProcessError,
        tree = Dir [] [str ''a.py''], files = (\<lambda>p. Some (replicate 51 10)),
        sessions = (\<lambda>p attempt req. Raises), github = (\<lambda>c. Ok),
        exists_at_cleanup = False\<rparr>"
  let ?w = "\<lparr>stale_copy = False, stale_rmtree = None, git_clone = None,
        tree = Dir [] [str ''a.py''], files = (\<lambda>p. Some (replicate 51 10)),
        sessions = (\<lambda>p attempt req. Raises), github = (\<lambda>c. Ok),
        exists_at_cleanup = True\<rparr>"
  have cf: "clone_repository ?wf = (Inl CalledProcessError, [CloneRepository, GitClone])"
    by (simp add: clone_repository_def)
  then have ff: "fst (clone_repository ?wf) = Inl CalledProcessError" by simp
  have xf: "exists_at_cleanup ?wf" by simp
  have "run ?self ?wf = (Inl CalledProcessError, snd (clone_repository ?wf) @ [Cleanup, Rmtree])"
    using run_cleanup_exactly_once [of ?self ?wf "(Inr (), [])" CalledProcessError] ff xf
    by blast
  then have a: "run ?self ?wf
                  = (Inl CalledProcessError, [CloneRepository, GitClone, Cleanup, Rmtree])"
    by (simp add: cf)
  have cn: "clone_repository ?wn = (Inl CalledProcessError, [CloneRepository, GitClone])"
    by (simp add: clone_repository_def)
  have bn: "run_body ?self ?wn = (Inl CalledProcessError, [CloneRepository, GitClone])"
    by (simp add: run_body_def cn)
  have xn: "\<not> exists_at_cleanup ?wn" by simp
  have "snd (run ?self ?wn) = snd (run_body ?self ?wn) @ [Cleanup]"
    using run_cleanup_exactly_once [of ?self ?wn "(Inr (), [])" CalledProcessError] xn
    by blast
  moreover have "fst (run ?self ?wn) = fst (run_body ?self ?wn)"
    using run_cleanup_exactly_once [of ?self ?wn "(Inr (), [])" CalledProcessError]
    by blast
  ultimately have b: "run ?self ?wn
                        = (Inl CalledProcessError, [CloneRepository, GitClone, Cleanup])"
    by (simp add: bn prod_eq_iff)
  have c: "clone_repository ?w = (Inr (), [CloneRepository, GitClone])"
    by (simp add: clone_repository_def)
  have fp: "find_python_files ?w = [[str ''a.py'']]"
    by (rule find_python_files_single) simp
  have fl: "flagged_files ?w = [[str ''a.py'']]"
    by (rule flagged_files_single) simp_all
  have pf: "process_file ?self ?w [str ''a.py''] = ([str ''a.py''], None)"
    by (simp add: process_file_def Let_def refactor_file_content_raises)
  have h2: "refactor_batch ?self ?w = []"
    by (simp add: refactor_batch_def gather_results_def fl pf)
  have bo: "run_body ?self ?w
              = (Inr (), [CloneRepository, GitClone, FindPythonFiles,
                          AnalyzeForCodeSmells [str ''a.py''], ProcessFile [str ''a.py'']])"
    by (simp add: run_body_def c h2 fp fl Let_def)
  have x: "exists_at_cleanup ?w" by simp
  have "snd (run ?self ?w) = snd (run_body ?self ?w) @ [Cleanup, Rmtree]"
    using run_cleanup_exactly_once [of ?self ?w "(Inr (), [])" CalledProcessError] x
    by blast
  moreover have "fst (run ?self ?w) = fst (run_body ?self ?w)"
    using run_cleanup_exactly_once [of ?self ?w "(Inr (), [])" CalledProcessError]
    by blast
  ultimately have d: "run ?self ?w
      = (Inr (), [CloneRepository, GitClone, FindPythonFiles,
                  AnalyzeForCodeSmells [str ''a.py''], ProcessFile [str ''a.py''],
                  Cleanup, Rmtree])"
    by (simp add: bo prod_eq_iff)
  from a b d show ?thesis by simp
qed

theorem refactor_batch_differs_from_original_witness:
  "refactor_batch
     \<lparr>repo_url = str ''https://github.com/o/r'', github_token = str ''t'',
      gemini_api_key = str ''k''\<rparr>
     \<lparr>stale_copy = False, stale_rmtree = None, git_clone = None,
      tree = Dir [] [str ''a.py''], files = (\<lambda>p. Some (replicate 51 10)),
      sessions = (\<lambda>p attempt req. Response 200
        (Some (JObj [(str ''candidates'',
           JArr [JObj [(str ''content'',
             JObj [(str ''parts'', JArr [JObj [(str ''text'', JStr (str ''x = 1''))]])])]])])) None),
      github = (\<lambda>c. Ok), exists_at_cleanup = True\<rparr>
     = [([str ''a.py''], str ''x = 1'')]
   \<and> str ''x = 1'' \<noteq> replicate 51 10"
proof -
  let ?self = "\<lparr>repo_url = str ''https://github.com/o/r'', github_token = str ''t'',
      gemini_api_key = str ''k''\<rparr>"
  let ?w = "\<lparr>stale_copy = False, stale_rmtree = None, git_clone = None,
      tree = Dir [] [str ''a.py''], files = (\<lambda>p. Some (replicate 51 10)),
      sessions = (\<lambda>p attempt req. Response 200
        (Some (JObj [(str ''candidates'',
           JArr [JObj [(str ''content'',
             JObj [(str ''parts'', JArr [JObj [(str ''text'', JStr (str ''x = 1''))]])])]])])) None),
      github = (\<lambda>c. Ok), exists_at_cleanup = True\<rparr>"
  have cl: "clean_response (str ''x = 1'') = str ''x = 1''"
    by (simp add: clean_eval)
  have ne: "str ''x = 1'' \<noteq> replicate 51 10"
    by (rule short_neq_long) (simp add: str_def)
  have fl: "flagged_files ?w = [[str ''a.py'']]"
    by (rule flagged_files_single) simp_all
  have pf: "process_file ?self ?w [str ''a.py''] = ([str ''a.py''], Some (str ''x = 1''))"
    by (simp add: process_file_def Let_def refactor_file_content_text cl ne)
  have nn: "str ''x = 1'' \<noteq> []" by (simp add: str_def)
  have b: "refactor_batch ?self ?w = [([str ''a.py''], str ''x = 1'')]"
    by (simp add: refactor_batch_def gather_results_def fl pf nn)
  then have m: "([str ''a.py''], str ''x = 1'') \<in> set (refactor_batch ?self ?w)" by simp
  have "\<exists>orig. files ?w [str ''a.py''] = Some orig \<and> str ''x = 1'' \<noteq> orig"
    using refactor_batch_differs_from_original [of ?self ?w "[str ''a.py'']" "str ''x = 1''"] m
    by blast
  then have "str ''x = 1'' \<noteq> replicate 51 10" by simp
  with b show ?thesis by (rule conjI)
qed

text \<open>
  Claim C8: when the batch is empty (every refactor call of a flagged file failed or
  returned the original content), publishing is skipped without error:
  \<^verbatim>\<open>create_pull_request\<close> is not called, no call to GitHub is made (no branch, no pull
  request), and the run ends normally. \<^verbatim>\<open>create_pull_request\<close> itself does nothing on an
  empty dict.
\<close>

theorem run_empty_batch_skips_publish:
  assumes "fst (clone_repository w) = Inr ()" and "refactor_batch self w = []"
  shows "fst (run self w) = Inr ()
       \<and> CreatePullRequest \<notin> set (snd (run self w))
       \<and> (\<forall>c. Github c \<notin> set (snd (run self w)))
       \<and> create_pull_request w (refactor_batch self w) = []"
proof -
  obtain ev where c: "clone_repository w = (Inr (), ev)"
    using assms(1) by (cases "clone_repository w") auto
  have s: "set ev \<subseteq> {CloneRepository, GitClone, Rmtree}"
    using clone_repository_steps [of w] c by simp
  have b: "run_body self w =
             (Inr (), ev @ [FindPythonFiles]
                @ map AnalyzeForCodeSmells (find_python_files w)
                @ map ProcessFile (flagged_files w))"
    by (simp add: run_body_def c assms(2) Let_def)
  have r: "run self w =
             (Inr (), (ev @ [FindPythonFiles]
                @ map AnalyzeForCodeSmells (find_python_files w)
                @ map ProcessFile (flagged_files w)) @ cleanup w)"
    by (simp add: run_unfold b)
  have k: "set (cleanup w) \<subseteq> {Cleanup, Rmtree}" by (simp add: cleanup_def)
  have 1: "fst (run self w) = Inr ()" by (simp add: r)
  have 2: "CreatePullRequest \<notin> set (snd (run self w))"
    using s k by (auto simp: r)
  have 3: "Github c \<notin> set (snd (run self w))" for c
    using s k by (auto simp: r)
  have 4: "create_pull_request w (refactor_batch self w) = []"
    by (simp add: assms(2) create_pull_request_empty)
  from 1 2 3 4 show ?thesis by blast
qed

theorem run_empty_batch_skips_publish_witness:
  "run \<lparr>repo_url = str ''https://github.com/o/r'', github_token = str ''t'',
        gemini_api_key = str ''k''\<rparr>
       \<lparr>stale_copy = False, stale_rmtree = None, git_clone = None,
        tree = Dir [] [str ''a.py''], files = (\<lambda>p. Some (replicate 51 10)),
        sessions = (\<lambda>p attempt req. Raises), github = (\<lambda>c. Ok),
        exists_at_cleanup = True\<rparr>
     = (Inr (), [CloneRepository, GitClone, FindPythonFiles,
                 AnalyzeForCodeSmells [str ''a.py''], ProcessFile [str ''a.py''],
                 Cleanup, Rmtree])"
proof -
  let ?self = "\<lparr>repo_url = str ''https://github.com/o/r'', github_token = str ''t'',
        gemini_api_key = str ''k''\<rparr>"
  let ?w = "\<lparr>stale_copy = False, stale_rmtree = None, git_clone = None,
        tree = Dir [] [str ''a.py''], files = (\<lambda>p. Some (replicate 51 10)),
        sessions = (\<lambda>p attempt req. Raises), github = (\<lambda>c. Ok),
        exists_at_cleanup = True\<rparr>"
  have c: "clone_repository ?w = (Inr (), [CloneRepository, GitClone])"
    by (simp add: clone_repository_def)
  then have h1: "fst (clone_repository ?w) = Inr ()" by simp
  have fp: "find_python_files ?w = [[str ''a.py'']]"
    by (rule find_python_files_single) simp
  have fl: "flagged_files ?w = [[str ''a.py'']]"
    by (rule flagged_files_single) simp_all
  have pf: "process_file ?self ?w [str ''a.py''] = ([str ''a.py''], None)"
    by (simp add: process_file_def Let_def refactor_file_content_raises)
  have h2: "refactor_batch ?self ?w = []"
    by (simp add: refactor_batch_def gather_results_def fl pf)
  have "fst (run ?self ?w) = Inr ()"
    using run_empty_batch_skips_publish [OF h1 h2] by blast
  moreover have "snd (run ?self ?w)
      = [CloneRepository, GitClone, FindPythonFiles,
         AnalyzeForCodeSmells [str ''a.py''], ProcessFile [str ''a.py''], Cleanup, Rmtree]"
    by (simp add: run_unfold run_body_def c h2 fp fl cleanup_def Let_def)
  ultimately show ?thesis by (simp add: prod_eq_iff)
qed

text \<open>
  Claim C9: a result whose content is the empty string is left out of the batch even
  though it differs from the non-empty original: \<^verbatim>\<open>process_file\<close> returns it as a
  changed content, and the test \<^verbatim>\<open>if refactored_content\<close> of the collecting loop drops
  it. Every content that enters the batch is a non-empty string.
\<close>

theorem collect_drops_empty_content:
  assumes "files w file_path = Some original_content"
    and "original_content \<noteq> []"
    and "fst (refactor_file_content self (sessions w file_path) original_content) = []"
  shows "process_file self w file_path = (file_path, Some [])
       \<and> collect (rs1 @ process_file self w file_path # rs2) d = collect (rs1 @ rs2) d
       \<and> (\<forall>p c. (p, c) \<in> set (collect rs []) \<longrightarrow> c \<noteq> [])"
proof -
  have 1: "process_file self w file_path = (file_path, Some [])"
    using assms by (auto simp: process_file_def Let_def)
  have 2: "collect (rs1 @ process_file self w file_path # rs2) d = collect (rs1 @ rs2) d"
    by (simp add: 1 collect_append)
  have 3: "c \<noteq> []" if "(p, c) \<in> set (collect rs [])" for p c
    using collect_entries [OF that] by simp
  from 1 2 3 show ?thesis by blast
qed

theorem collect_drops_empty_content_witness:
  "process_file
     \<lparr>repo_url = str ''https://github.com/o/r'', github_token = str ''t'',
      gemini_api_key = str ''k''\<rparr>
     \<lparr>stale_copy = False, stale_rmtree = None, git_clone = None,
      tree = Dir [] [str ''a.py''], files = (\<lambda>p. Some (replicate 51 10)),
      sessions = (\<lambda>p attempt req. Response 200
        (Some (JObj [(str ''candidates'',
           JArr [JObj [(str ''content'',
             JObj [(str ''parts'', JArr [JObj [(str ''text'', JStr (str ''\<newline>''))]])])]])])) None),
      github = (\<lambda>c. Ok), exists_at_cleanup = True\<rparr>
     [str ''a.py'']
     = ([str ''a.py''], Some [])
   \<and> refactor_batch
     \<lparr>repo_url = str ''https://github.com/o/r'', github_token = str ''t'',
      gemini_api_key = str ''k''\<rparr>
     \<lparr>stale_copy = False, stale_rmtree = None, git_clone = None,
      tree = Dir [] [str ''a.py''], files = (\<lambda>p. Some (replicate 51 10)),
      sessions = (\<lambda>p attempt req. Response 200
        (Some (JObj [(str ''candidates'',
           JArr [JObj [(str ''content'',
             JObj [(str ''parts'', JArr [JObj [(str ''text'', JStr (str ''\<newline>''))]])])]])])) None),
      github = (\<lambda>c. Ok), exists_at_cleanup = True\<rparr>
     = []"
proof -
  let ?self = "\<lparr>repo_url = str ''https://github.com/o/r'', github_token = str ''t'',
      gemini_api_key = str ''k''\<rparr>"
  let ?w = "\<lparr>stale_copy = False, stale_rmtree = None, git_clone = None,
      tree = Dir [] [str ''a.py''], files = (\<lambda>p. Some (replicate 51 10)),
      sessions = (\<lambda>p attempt req. Response 200
        (Some (JObj [(str ''candidates'',
           JArr [JObj [(str ''content'',
             JObj [(str ''parts'', JArr [JObj [(str ''text'', JStr (str ''\<newline>''))]])])]])])) None),
      github = (\<lambda>c. Ok), exists_at_cleanup = True\<rparr>"
  have cl: "clean_response (str ''\<newline>'') = []"
    by (simp add: clean_eval)
  have h1: "files ?w [str ''a.py''] = Some (replicate 51 10)" by simp
  have h2: "replicate 51 (10::nat) \<noteq> []" by simp
  have h3: "fst (refactor_file_content ?self (sessions ?w [str ''a.py'']) (replicate 51 10)) = []"
    by (simp add: refactor_file_content_text cl)
  note t = collect_drops_empty_content [OF h1 h2 h3, of "[]" "[]" "[]" "[]"]
  from t have pf: "process_file ?self ?w [str ''a.py''] = ([str ''a.py''], Some [])"
    by (rule conjunct1)
  from t have "collect ([] @ process_file ?self ?w [str ''a.py''] # []) [] = collect ([] @ []) []"
    by blast
  then have co: "collect [process_file ?self ?w [str ''a.py'']] [] = []" by simp
  have fl: "flagged_files ?w = [[str ''a.py'']]"
    by (rule flagged_files_single) simp_all
  have "refactor_batch ?self ?w = []"
    by (simp only: refactor_batch_def gather_results_def fl list.map co)
  with pf show ?thesis by (rule conjI)
qed

end
